theory Spec2Isabelle
  imports Complex_Main
begin

section \<open>Data model of \<open>main.py\<close>\<close>

text \<open>
  Amounts are Python floats in the source. They are modelled as exact rationals: the
  rounding of float sums and differences, \<open>inf\<close> and \<open>nan\<close> are outside the model, every
  other step of the code is kept. The properties proved below are therefore about which
  amounts are stored, carried forward, cleared and shown, and use no law of arithmetic
  that floats lack; none of them says that a sum of floats is exact.
\<close>

type_synonym amount = rat

text \<open>
  A transaction is the dictionary built step by step by the dialogue: \<open>'type'\<close> is set
  when the dictionary is created (\<open>ask_for_amount\<close>), \<open>'amount'\<close> by
  \<open>ask_for_description\<close>, \<open>'description'\<close> and \<open>'date'\<close> by
  \<open>save_transaction\<close>. A key that is not yet there is \<open>None\<close>.
\<close>

record transaction =
  type :: string
  amount :: "amount option"
  description :: "string option"
  date :: "string option"

text \<open>\<open>context.user_data\<close>: the per-user dictionary, one optional field per key.\<close>

record user_data =
  last_update :: "string option"
  balance_start_day :: "amount option"
  balance_end_day :: "amount option"
  transactions_today :: "transaction list option"
  message_id :: "int option"
  current_transaction :: "transaction option"

text \<open>The dictionary returned by \<open>get_user_stats\<close>.\<close>

record stats =
  stats_date :: string
  balance_start :: amount
  total_income :: amount
  total_expense :: amount
  balance_end :: amount
  transactions :: "transaction list"

datatype py_error = KeyError | AttributeError

text \<open>Stages of the conversation (\<open>range(3)\<close>) and the callback data.\<close>

datatype stage = START_ROUTES | GET_AMOUNT | GET_DESCRIPTION

definition ADD_INCOME :: string where
  "ADD_INCOME = ''add_income''"

definition ADD_EXPENSE :: string where
  "ADD_EXPENSE = ''add_expense''"

text \<open>
  What a handler reads from outside the program while it runs: the clock
  (\<open>datetime.now(TZ)\<close> in its three formats), the outcome of the two transport calls the
  code guards with \<open>try\<close>, the id the transport gives to a message it sends, the
  user's mention, and the two Python builtins the code applies to amounts: \<open>float(text)\<close>
  (\<open>None\<close> where it raises \<open>ValueError\<close>) and the format \<open>:.2f\<close>.
\<close>

record env =
  today_str :: string
  date_long :: string
  now_iso :: string
  edit_ok :: bool
  delete_ok :: bool
  sent_id :: int
  mention_html :: string
  float :: "string \<Rightarrow> amount option"
  fmt2f :: "amount \<Rightarrow> string"

section \<open>The ledger: \<open>get_user_stats\<close>\<close>

text \<open>
  \<open>sum(t['amount'] for t in transactions if t['type'] == ty)\<close>: a loop from the left that
  starts at 0, reads \<open>t['amount']\<close> only for the transactions of the type, and raises
  \<open>KeyError\<close> at the first of them that has no amount.
\<close>

fun sum_amounts :: "string \<Rightarrow> transaction list \<Rightarrow> amount \<Rightarrow> py_error + amount" where
  "sum_amounts ty [] acc = Inr acc"
| "sum_amounts ty (t # ts) acc =
     (if type t = ty
      then (case amount t of
              None \<Rightarrow> Inl KeyError
            | Some a \<Rightarrow> sum_amounts ty ts (acc + a))
      else sum_amounts ty ts acc)"

text \<open>The condition of line 37: the key is absent or its value is not today's date.\<close>

definition rollover_due :: "env \<Rightarrow> user_data \<Rightarrow> bool" where
  "rollover_due e ud = (last_update ud \<noteq> Some (today_str e))"

text \<open>Lines 39 to 42: the carry-forward step.\<close>

definition rollover :: "env \<Rightarrow> user_data \<Rightarrow> user_data" where
  "rollover e ud =
     ud\<lparr>balance_start_day := Some (case balance_end_day ud of None \<Rightarrow> 0 | Some b \<Rightarrow> b),
        transactions_today := Some [],
        last_update := Some (today_str e)\<rparr>"

text \<open>
  \<open>get_user_stats\<close> mutates \<open>user_data\<close> in place, so the model returns the dictionary
  as it is when the function returns or raises, with the statistics or the error.
\<close>

definition get_user_stats :: "env \<Rightarrow> user_data \<Rightarrow> user_data \<times> (py_error + stats)" where
  "get_user_stats e ud =
     (let ud1 = (if rollover_due e ud then rollover e ud else ud);
          txs = (case transactions_today ud1 of None \<Rightarrow> [] | Some l \<Rightarrow> l)
      in case sum_amounts ''income'' txs 0 of
           Inl err \<Rightarrow> (ud1, Inl err)
         | Inr income \<Rightarrow>
             (case sum_amounts ''expense'' txs 0 of
                Inl err \<Rightarrow> (ud1, Inl err)
              | Inr expense \<Rightarrow>
                  (let bstart = (case balance_start_day ud1 of None \<Rightarrow> 0 | Some b \<Rightarrow> b);
                       bend = bstart + income - expense
                   in (ud1\<lparr>balance_end_day := Some bend\<rparr>,
                       Inr \<lparr>stats_date = date_long e,
                            balance_start = bstart,
                            total_income = income,
                            total_expense = expense,
                            balance_end = bend,
                            transactions = txs\<rparr>))))"

section \<open>The texts of the bot\<close>

text \<open>The literal of line 68, before the mention (in English: Hello, ), as its 14 bytes of UTF-8.\<close>

definition txt_hello :: string where
  "txt_hello =
    [CHR 0xD0, CHR 0x9F, CHR 0xD1, CHR 0x80, CHR 0xD0, CHR 0xB8, CHR 0xD0, CHR 0xB2, CHR 0xD0,
     CHR 0xB5, CHR 0xD1, CHR 0x82, CHR 0x2C, CHR 0x20]"

text \<open>The literal of line 68, after the mention (in English: exclamation mark and two newlines), as its 3 bytes of UTF-8.\<close>

definition txt_hello_end :: string where
  "txt_hello_end =
    [CHR 0x21, CHR 0x0A, CHR 0x0A]"

text \<open>The literal of line 69, before the date (in English: calendar emoji, Today: ), as its 23 bytes of UTF-8.\<close>

definition txt_today :: string where
  "txt_today =
    [CHR 0xF0, CHR 0x9F, CHR 0x93, CHR 0x85, CHR 0x20, CHR 0x2A, CHR 0x2A, CHR 0xD0, CHR 0xA1,
     CHR 0xD0, CHR 0xB5, CHR 0xD0, CHR 0xB3, CHR 0xD0, CHR 0xBE, CHR 0xD0, CHR 0xB4, CHR 0xD0,
     CHR 0xBD, CHR 0xD1, CHR 0x8F, CHR 0x3A, CHR 0x20]"

text \<open>The literal of line 69, after the date (in English: two asterisks and a newline), as its 3 bytes of UTF-8.\<close>

definition txt_today_end :: string where
  "txt_today_end =
    [CHR 0x2A, CHR 0x2A, CHR 0x0A]"

text \<open>The literal of line 70 (in English: money-bag emoji, At the start of the day: ), as its 35 bytes of UTF-8.\<close>

definition txt_start_of_day :: string where
  "txt_start_of_day =
    [CHR 0xF0, CHR 0x9F, CHR 0x92, CHR 0xB0, CHR 0x20, CHR 0x2A, CHR 0x2A, CHR 0xD0, CHR 0x9D,
     CHR 0xD0, CHR 0xB0, CHR 0x20, CHR 0xD0, CHR 0xBD, CHR 0xD0, CHR 0xB0, CHR 0xD1, CHR 0x87,
     CHR 0xD0, CHR 0xB0, CHR 0xD0, CHR 0xBB, CHR 0xD0, CHR 0xBE, CHR 0x20, CHR 0xD0, CHR 0xB4,
     CHR 0xD0, CHR 0xBD, CHR 0xD1, CHR 0x8F, CHR 0x3A, CHR 0x2A, CHR 0x2A, CHR 0x20]"

text \<open>The literal of line 71 (in English: chart emoji, Income: +), as its 24 bytes of UTF-8.\<close>

definition txt_income :: string where
  "txt_income =
    [CHR 0xF0, CHR 0x9F, CHR 0x93, CHR 0x88, CHR 0x20, CHR 0x2A, CHR 0x2A, CHR 0xD0, CHR 0x94,
     CHR 0xD0, CHR 0xBE, CHR 0xD1, CHR 0x85, CHR 0xD0, CHR 0xBE, CHR 0xD0, CHR 0xB4, CHR 0xD1,
     CHR 0x8B, CHR 0x3A, CHR 0x2A, CHR 0x2A, CHR 0x20, CHR 0x2B]"

text \<open>The literal of line 72 (in English: chart emoji, Expenses: -), as its 26 bytes of UTF-8.\<close>

definition txt_expense :: string where
  "txt_expense =
    [CHR 0xF0, CHR 0x9F, CHR 0x93, CHR 0x89, CHR 0x20, CHR 0x2A, CHR 0x2A, CHR 0xD0, CHR 0xA0,
     CHR 0xD0, CHR 0xB0, CHR 0xD1, CHR 0x81, CHR 0xD1, CHR 0x85, CHR 0xD0, CHR 0xBE, CHR 0xD0,
     CHR 0xB4, CHR 0xD1, CHR 0x8B, CHR 0x3A, CHR 0x2A, CHR 0x2A, CHR 0x20, CHR 0x2D]"

text \<open>The literal of line 73 (in English: bank emoji, At the end of the day: ), as its 33 bytes of UTF-8.\<close>

definition txt_end_of_day :: string where
  "txt_end_of_day =
    [CHR 0xF0, CHR 0x9F, CHR 0x8F, CHR 0xA6, CHR 0x20, CHR 0x2A, CHR 0x2A, CHR 0xD0, CHR 0x9D,
     CHR 0xD0, CHR 0xB0, CHR 0x20, CHR 0xD0, CHR 0xBA, CHR 0xD0, CHR 0xBE, CHR 0xD0, CHR 0xBD,
     CHR 0xD0, CHR 0xB5, CHR 0xD1, CHR 0x86, CHR 0x20, CHR 0xD0, CHR 0xB4, CHR 0xD0, CHR 0xBD,
     CHR 0xD1, CHR 0x8F, CHR 0x3A, CHR 0x2A, CHR 0x2A, CHR 0x20]"

text \<open>The literal of line 74 (in English: Last operations:), as its 41 bytes of UTF-8.\<close>

definition txt_last_operations :: string where
  "txt_last_operations =
    [CHR 0x2A, CHR 0x2A, CHR 0xD0, CHR 0x9F, CHR 0xD0, CHR 0xBE, CHR 0xD1, CHR 0x81, CHR 0xD0,
     CHR 0xBB, CHR 0xD0, CHR 0xB5, CHR 0xD0, CHR 0xB4, CHR 0xD0, CHR 0xBD, CHR 0xD0, CHR 0xB8,
     CHR 0xD0, CHR 0xB5, CHR 0x20, CHR 0xD0, CHR 0xBE, CHR 0xD0, CHR 0xBF, CHR 0xD0, CHR 0xB5,
     CHR 0xD1, CHR 0x80, CHR 0xD0, CHR 0xB0, CHR 0xD1, CHR 0x86, CHR 0xD0, CHR 0xB8, CHR 0xD0,
     CHR 0xB8, CHR 0x3A, CHR 0x2A, CHR 0x2A, CHR 0x0A]"

text \<open>The literal of line 78 (in English: No operations today yet.), as its 56 bytes of UTF-8.\<close>

definition txt_no_operations :: string where
  "txt_no_operations =
    [CHR 0x5F, CHR 0xD0, CHR 0x9F, CHR 0xD0, CHR 0xBE, CHR 0xD0, CHR 0xBA, CHR 0xD0, CHR 0xB0,
     CHR 0x20, CHR 0xD0, CHR 0xBD, CHR 0xD0, CHR 0xB5, CHR 0xD1, CHR 0x82, CHR 0x20, CHR 0xD0,
     CHR 0xBE, CHR 0xD0, CHR 0xBF, CHR 0xD0, CHR 0xB5, CHR 0xD1, CHR 0x80, CHR 0xD0, CHR 0xB0,
     CHR 0xD1, CHR 0x86, CHR 0xD0, CHR 0xB8, CHR 0xD0, CHR 0xB9, CHR 0x20, CHR 0xD0, CHR 0xB7,
     CHR 0xD0, CHR 0xB0, CHR 0x20, CHR 0xD1, CHR 0x81, CHR 0xD0, CHR 0xB5, CHR 0xD0, CHR 0xB3,
     CHR 0xD0, CHR 0xBE, CHR 0xD0, CHR 0xB4, CHR 0xD0, CHR 0xBD, CHR 0xD1, CHR 0x8F, CHR 0x2E,
     CHR 0x5F, CHR 0x0A]"

text \<open>The literal of line 81, the marker of an income (in English: check-mark emoji), as its 3 bytes of UTF-8.\<close>

definition mark_income :: string where
  "mark_income =
    [CHR 0xE2, CHR 0x9C, CHR 0x85]"

text \<open>The literal of line 81, the marker of anything else (in English: red-triangle emoji), as its 4 bytes of UTF-8.\<close>

definition mark_expense :: string where
  "mark_expense =
    [CHR 0xF0, CHR 0x9F, CHR 0x94, CHR 0xBB]"

text \<open>The literal of line 82, the default of t.get('description', ...) (in English: no description), as its 23 bytes of UTF-8.\<close>

definition no_description :: string where
  "no_description =
    [CHR 0xD0, CHR 0xB1, CHR 0xD0, CHR 0xB5, CHR 0xD0, CHR 0xB7, CHR 0x20, CHR 0xD0, CHR 0xBE,
     CHR 0xD0, CHR 0xBF, CHR 0xD0, CHR 0xB8, CHR 0xD1, CHR 0x81, CHR 0xD0, CHR 0xB0, CHR 0xD0,
     CHR 0xBD, CHR 0xD0, CHR 0xB8, CHR 0xD1, CHR 0x8F]"

text \<open>The literal of line 85 (in English: plus, Add income), as its 31 bytes of UTF-8.\<close>

definition btn_add_income :: string where
  "btn_add_income =
    [CHR 0xE2, CHR 0x9E, CHR 0x95, CHR 0x20, CHR 0xD0, CHR 0x94, CHR 0xD0, CHR 0xBE, CHR 0xD0,
     CHR 0xB1, CHR 0xD0, CHR 0xB0, CHR 0xD0, CHR 0xB2, CHR 0xD0, CHR 0xB8, CHR 0xD1, CHR 0x82,
     CHR 0xD1, CHR 0x8C, CHR 0x20, CHR 0xD0, CHR 0xB4, CHR 0xD0, CHR 0xBE, CHR 0xD1, CHR 0x85,
     CHR 0xD0, CHR 0xBE, CHR 0xD0, CHR 0xB4]"

text \<open>The literal of line 86 (in English: minus, Add expense), as its 33 bytes of UTF-8.\<close>

definition btn_add_expense :: string where
  "btn_add_expense =
    [CHR 0xE2, CHR 0x9E, CHR 0x96, CHR 0x20, CHR 0xD0, CHR 0x94, CHR 0xD0, CHR 0xBE, CHR 0xD0,
     CHR 0xB1, CHR 0xD0, CHR 0xB0, CHR 0xD0, CHR 0xB2, CHR 0xD0, CHR 0xB8, CHR 0xD1, CHR 0x82,
     CHR 0xD1, CHR 0x8C, CHR 0x20, CHR 0xD1, CHR 0x80, CHR 0xD0, CHR 0xB0, CHR 0xD1, CHR 0x81,
     CHR 0xD1, CHR 0x85, CHR 0xD0, CHR 0xBE, CHR 0xD0, CHR 0xB4]"

text \<open>The literal of line 133, before the type (in English: Enter the amount of the ), as its 26 bytes of UTF-8.\<close>

definition txt_enter_amount :: string where
  "txt_enter_amount =
    [CHR 0xD0, CHR 0x92, CHR 0xD0, CHR 0xB2, CHR 0xD0, CHR 0xB5, CHR 0xD0, CHR 0xB4, CHR 0xD0,
     CHR 0xB8, CHR 0xD1, CHR 0x82, CHR 0xD0, CHR 0xB5, CHR 0x20, CHR 0xD1, CHR 0x81, CHR 0xD1,
     CHR 0x83, CHR 0xD0, CHR 0xBC, CHR 0xD0, CHR 0xBC, CHR 0xD1, CHR 0x83, CHR 0x20]"

text \<open>The literal of line 132 (in English: income (genitive)), as its 12 bytes of UTF-8.\<close>

definition txt_of_income :: string where
  "txt_of_income =
    [CHR 0xD0, CHR 0xB4, CHR 0xD0, CHR 0xBE, CHR 0xD1, CHR 0x85, CHR 0xD0, CHR 0xBE, CHR 0xD0,
     CHR 0xB4, CHR 0xD0, CHR 0xB0]"

text \<open>The literal of line 132 (in English: expense (genitive)), as its 14 bytes of UTF-8.\<close>

definition txt_of_expense :: string where
  "txt_of_expense =
    [CHR 0xD1, CHR 0x80, CHR 0xD0, CHR 0xB0, CHR 0xD1, CHR 0x81, CHR 0xD1, CHR 0x85, CHR 0xD0,
     CHR 0xBE, CHR 0xD0, CHR 0xB4, CHR 0xD0, CHR 0xB0]"

text \<open>The literal of line 143 (in English: This does not look like a number. Please enter the amount again.), as its 104 bytes of UTF-8.\<close>

definition txt_not_a_number :: string where
  "txt_not_a_number =
    [CHR 0xD0, CHR 0xAD, CHR 0xD1, CHR 0x82, CHR 0xD0, CHR 0xBE, CHR 0x20, CHR 0xD0, CHR 0xBD,
     CHR 0xD0, CHR 0xB5, CHR 0x20, CHR 0xD0, CHR 0xBF, CHR 0xD0, CHR 0xBE, CHR 0xD1, CHR 0x85,
     CHR 0xD0, CHR 0xBE, CHR 0xD0, CHR 0xB6, CHR 0xD0, CHR 0xB5, CHR 0x20, CHR 0xD0, CHR 0xBD,
     CHR 0xD0, CHR 0xB0, CHR 0x20, CHR 0xD1, CHR 0x87, CHR 0xD0, CHR 0xB8, CHR 0xD1, CHR 0x81,
     CHR 0xD0, CHR 0xBB, CHR 0xD0, CHR 0xBE, CHR 0x2E, CHR 0x20, CHR 0xD0, CHR 0x9F, CHR 0xD0,
     CHR 0xBE, CHR 0xD0, CHR 0xB6, CHR 0xD0, CHR 0xB0, CHR 0xD0, CHR 0xBB, CHR 0xD1, CHR 0x83,
     CHR 0xD0, CHR 0xB9, CHR 0xD1, CHR 0x81, CHR 0xD1, CHR 0x82, CHR 0xD0, CHR 0xB0, CHR 0x2C,
     CHR 0x20, CHR 0xD0, CHR 0xB2, CHR 0xD0, CHR 0xB2, CHR 0xD0, CHR 0xB5, CHR 0xD0, CHR 0xB4,
     CHR 0xD0, CHR 0xB8, CHR 0xD1, CHR 0x82, CHR 0xD0, CHR 0xB5, CHR 0x20, CHR 0xD1, CHR 0x81,
     CHR 0xD1, CHR 0x83, CHR 0xD0, CHR 0xBC, CHR 0xD0, CHR 0xBC, CHR 0xD1, CHR 0x83, CHR 0x20,
     CHR 0xD0, CHR 0xB5, CHR 0xD1, CHR 0x89, CHR 0xD0, CHR 0xB5, CHR 0x20, CHR 0xD1, CHR 0x80,
     CHR 0xD0, CHR 0xB0, CHR 0xD0, CHR 0xB7, CHR 0x2E]"

text \<open>The literal of line 146 (in English: Now enter a short description:), as its 60 bytes of UTF-8.\<close>

definition txt_enter_description :: string where
  "txt_enter_description =
    [CHR 0xD0, CHR 0xA2, CHR 0xD0, CHR 0xB5, CHR 0xD0, CHR 0xBF, CHR 0xD0, CHR 0xB5, CHR 0xD1,
     CHR 0x80, CHR 0xD1, CHR 0x8C, CHR 0x20, CHR 0xD0, CHR 0xB2, CHR 0xD0, CHR 0xB2, CHR 0xD0,
     CHR 0xB5, CHR 0xD0, CHR 0xB4, CHR 0xD0, CHR 0xB8, CHR 0xD1, CHR 0x82, CHR 0xD0, CHR 0xB5,
     CHR 0x20, CHR 0xD0, CHR 0xBA, CHR 0xD1, CHR 0x80, CHR 0xD0, CHR 0xB0, CHR 0xD1, CHR 0x82,
     CHR 0xD0, CHR 0xBA, CHR 0xD0, CHR 0xBE, CHR 0xD0, CHR 0xB5, CHR 0x20, CHR 0xD0, CHR 0xBE,
     CHR 0xD0, CHR 0xBF, CHR 0xD0, CHR 0xB8, CHR 0xD1, CHR 0x81, CHR 0xD0, CHR 0xB0, CHR 0xD0,
     CHR 0xBD, CHR 0xD0, CHR 0xB8, CHR 0xD0, CHR 0xB5, CHR 0x3A]"

section \<open>The transport\<close>

text \<open>
  An update as the handlers read it: \<open>update.callback_query\<close> (its \<open>data\<close>) and
  \<open>update.message\<close> (its \<open>text\<close>), each \<open>None\<close> when the update has none. The
  \<open>MockUpdate\<close> of \<open>save_transaction\<close> has neither.
\<close>

record update =
  callback_query :: "string option"
  message :: "string option"

definition MockUpdate :: update where
  "MockUpdate = \<lparr>callback_query = None, message = None\<rparr>"

text \<open>The inline keyboard of lines 84 to 87: rows of buttons, each a label and its callback data.\<close>

type_synonym markup = "(string \<times> string) list list"

definition keyboard :: markup where
  "keyboard = [[(btn_add_income, ADD_INCOME)], [(btn_add_expense, ADD_EXPENSE)]]"

text \<open>
  The calls a handler makes on the transport, in the order it makes them:
  \<open>query.answer()\<close>, \<open>query.edit_message_text\<close>, \<open>message.reply_html\<close>,
  \<open>bot.send_message\<close>, \<open>bot.edit_message_text\<close> (with the message id it is given),
  \<open>bot.delete_message\<close>, \<open>message.reply_text\<close> and \<open>logger.info\<close>.
\<close>

datatype effect =
    Answer
  | QueryEdit string "markup option"
  | ReplyHtml string markup
  | SendMessage string markup
  | EditMessage "int option" string markup
  | DeleteMessage int
  | ReplyText string
  | LogInfo

text \<open>
  What a handler leaves behind: \<open>user_data\<close> as mutated so far, the transport calls made
  so far, and the stage it returns or the exception it raises.
\<close>

type_synonym outcome = "user_data \<times> effect list \<times> (py_error + stage)"

text \<open>Python's truth value of \<open>message_id\<close>: \<open>None\<close> and \<open>0\<close> are false.\<close>

definition truthy :: "int option \<Rightarrow> bool" where
  "truthy m = (case m of None \<Rightarrow> False | Some i \<Rightarrow> i \<noteq> 0)"

section \<open>The main menu: \<open>start\<close>\<close>

text \<open>Python's slice \<open>xs[i:]\<close>, where a negative \<open>i\<close> counts from the end.\<close>

definition slice_from :: "int \<Rightarrow> 'a list \<Rightarrow> 'a list" where
  "slice_from i xs =
     (let n = int (length xs);
          first = (if i < 0 then max (n + i) 0 else min i n)
      in drop (nat first) xs)"

text \<open>
  The loop of lines 80 to 82, which appends one line per transaction to the text:
  \<open>t['amount']\<close> raises \<open>KeyError\<close> where the amount is missing, and
  \<open>t.get('description', ...)\<close> gives the default where the key is missing.
\<close>

fun operation_lines :: "env \<Rightarrow> transaction list \<Rightarrow> string \<Rightarrow> py_error + string" where
  "operation_lines e [] text = Inr text"
| "operation_lines e (t # ts) text =
     (let op_type = (if type t = ''income'' then mark_income else mark_expense)
      in case amount t of
           None \<Rightarrow> Inl KeyError
         | Some a \<Rightarrow>
             operation_lines e ts
               (text @ op_type @ '' '' @ fmt2f e a @ '' - ''
                  @ (case description t of None \<Rightarrow> no_description | Some d \<Rightarrow> d)
                  @ [CHR 0x0A]))"

text \<open>Lines 67 to 75: the head of the menu.\<close>

definition menu_head :: "env \<Rightarrow> stats \<Rightarrow> string" where
  "menu_head e s =
     txt_hello @ mention_html e @ txt_hello_end
     @ txt_today @ stats_date s @ txt_today_end
     @ txt_start_of_day @ fmt2f e (balance_start s) @ [CHR 0x0A]
     @ txt_income @ fmt2f e (total_income s) @ [CHR 0x0A]
     @ txt_expense @ fmt2f e (total_expense s) @ [CHR 0x0A]
     @ txt_end_of_day @ fmt2f e (balance_end s) @ [CHR 0x0A, CHR 0x0A]
     @ txt_last_operations"

text \<open>Lines 67 to 82: the whole text of the menu.\<close>

definition menu_text :: "env \<Rightarrow> stats \<Rightarrow> py_error + string" where
  "menu_text e s =
     (if transactions s = [] then Inr (menu_head e s @ txt_no_operations)
      else operation_lines e (slice_from (- 5) (transactions s)) (menu_head e s))"

text \<open>
  \<open>start\<close>. The transport calls that the code does not guard are taken to succeed; the
  guarded \<open>bot.edit_message_text\<close> succeeds when \<open>edit_ok\<close> says so, and where it fails
  the handler replies to \<open>update.message\<close>, which raises \<open>AttributeError\<close> when the
  update has no message.
\<close>

definition start :: "env \<Rightarrow> update \<Rightarrow> user_data \<Rightarrow> outcome" where
  "start e u ud =
     (case get_user_stats e ud of
        (ud1, Inl err) \<Rightarrow> (ud1, [], Inl err)
      | (ud1, Inr s) \<Rightarrow>
          (case menu_text e s of
             Inl err \<Rightarrow> (ud1, [], Inl err)
           | Inr text \<Rightarrow>
               (let mid = message_id ud1
                in if callback_query u \<noteq> None \<or> \<not> truthy mid
                   then (if callback_query u \<noteq> None
                         then (ud1, [Answer, QueryEdit text (Some keyboard)], Inr START_ROUTES)
                         else if message u \<noteq> None
                         then (ud1\<lparr>message_id := Some (sent_id e)\<rparr>,
                               [ReplyHtml text keyboard], Inr START_ROUTES)
                         else (ud1\<lparr>message_id := Some (sent_id e)\<rparr>,
                               [SendMessage text keyboard], Inr START_ROUTES))
                   else (if edit_ok e
                         then (ud1, [EditMessage mid text keyboard], Inr START_ROUTES)
                         else if message u \<noteq> None
                         then (ud1\<lparr>message_id := Some (sent_id e)\<rparr>,
                               [EditMessage mid text keyboard, ReplyHtml text keyboard],
                               Inr START_ROUTES)
                         else (ud1, [EditMessage mid text keyboard], Inl AttributeError)))))"

section \<open>The dialogue: \<open>ask_for_amount\<close>, \<open>ask_for_description\<close>, \<open>save_transaction\<close>\<close>

definition ask_for_amount :: "env \<Rightarrow> update \<Rightarrow> user_data \<Rightarrow> outcome" where
  "ask_for_amount e u ud =
     (case callback_query u of
        None \<Rightarrow> (ud, [], Inl AttributeError)
      | Some data \<Rightarrow>
          (let transaction_type = (if data = ADD_INCOME then ''income'' else ''expense'');
               type_text = (if transaction_type = ''income'' then txt_of_income else txt_of_expense)
           in (ud\<lparr>current_transaction :=
                     Some \<lparr>type = transaction_type, amount = None,
                           description = None, date = None\<rparr>\<rparr>,
               [Answer, QueryEdit (txt_enter_amount @ type_text @ '':'') None],
               Inr GET_AMOUNT)))"

text \<open>
  \<open>float(update.message.text)\<close> is evaluated first; only when it returns is
  \<open>current_transaction\<close> read, and a missing key there is a \<open>KeyError\<close> that the
  \<open>except (ValueError, TypeError)\<close> does not catch.
\<close>

definition ask_for_description :: "env \<Rightarrow> update \<Rightarrow> user_data \<Rightarrow> outcome" where
  "ask_for_description e u ud =
     (case message u of
        None \<Rightarrow> (ud, [], Inl AttributeError)
      | Some text \<Rightarrow>
          (case float e text of
             None \<Rightarrow> (ud, [ReplyText txt_not_a_number], Inr GET_AMOUNT)
           | Some a \<Rightarrow>
               (case current_transaction ud of
                  None \<Rightarrow> (ud, [], Inl KeyError)
                | Some t \<Rightarrow>
                    (ud\<lparr>current_transaction := Some (t\<lparr>amount := Some a\<rparr>)\<rparr>,
                     [ReplyText txt_enter_description],
                     Inr GET_DESCRIPTION))))"

text \<open>
  Lines 151 to 174 of \<open>save_transaction\<close>: the transaction is completed, appended, the old
  menu is deleted (a failure is only logged) and the two keys are popped.
\<close>

definition commit_transaction ::
  "env \<Rightarrow> update \<Rightarrow> user_data \<Rightarrow> py_error + (user_data \<times> effect list)" where
  "commit_transaction e u ud =
     (case message u of
        None \<Rightarrow> Inl AttributeError
      | Some text \<Rightarrow>
          (case current_transaction ud of
             None \<Rightarrow> Inl KeyError
           | Some t \<Rightarrow>
               (let t1 = t\<lparr>description := Some text, date := Some (now_iso e)\<rparr>;
                    today = (case transactions_today ud of None \<Rightarrow> [] | Some l \<Rightarrow> l);
                    old_menu_id = message_id ud;
                    deleted = (if truthy old_menu_id
                               then (case old_menu_id of
                                       None \<Rightarrow> []
                                     | Some m \<Rightarrow>
                                         DeleteMessage m # (if delete_ok e then [] else [LogInfo]))
                               else [])
                in Inr (ud\<lparr>transactions_today := Some (today @ [t1]),
                            message_id := None,
                            current_transaction := None\<rparr>,
                        deleted))))"

text \<open>\<open>save_transaction\<close>: the commit, then \<open>start\<close> on the \<open>MockUpdate\<close> (line 187).\<close>

definition save_transaction :: "env \<Rightarrow> update \<Rightarrow> user_data \<Rightarrow> outcome" where
  "save_transaction e u ud =
     (case commit_transaction e u ud of
        Inl err \<Rightarrow> (ud, [], Inl err)
      | Inr (ud1, deleted) \<Rightarrow>
          (case start e MockUpdate ud1 of
             (ud2, shown, r) \<Rightarrow> (ud2, deleted @ shown, r)))"

section \<open>The conversation handler of \<open>main\<close>\<close>

text \<open>
  The three kinds of update the handlers of lines 209 to 223 tell apart: a command
  (\<open>CommandHandler\<close>), a callback query, and a text message that is not a command
  (\<open>filters.TEXT & ~filters.COMMAND\<close>).
\<close>

datatype event = Command string | CallbackQuery string | TextMessage string

definition update_of :: "event \<Rightarrow> update" where
  "update_of ev =
     (case ev of
        Command c \<Rightarrow> \<lparr>callback_query = None, message = Some (CHR ''/'' # c)\<rparr>
      | CallbackQuery d \<Rightarrow> \<lparr>callback_query = Some d, message = None\<rparr>
      | TextMessage t \<Rightarrow> \<lparr>callback_query = None, message = Some t\<rparr>)"

text \<open>
  The pattern of line 213, matched with \<open>re.match\<close>: one of the two callback data, where
  \<open>$\<close> also matches before a last newline.
\<close>

definition pattern_matches :: "string \<Rightarrow> bool" where
  "pattern_matches d =
     (d = ADD_INCOME \<or> d = ADD_EXPENSE
      \<or> d = ADD_INCOME @ [CHR 0x0A] \<or> d = ADD_EXPENSE @ [CHR 0x0A])"

text \<open>
  The handler the conversation picks: the entry point when no conversation runs, else the
  handler of the stage, else the fallback. No handler: the update is ignored.
\<close>

definition handler_for ::
  "stage option \<Rightarrow> event \<Rightarrow> (env \<Rightarrow> update \<Rightarrow> user_data \<Rightarrow> outcome) option" where
  "handler_for st ev =
     (case ev of
        Command c \<Rightarrow> (if c = ''start'' then Some start else None)
      | CallbackQuery d \<Rightarrow>
          (if st = Some START_ROUTES \<and> pattern_matches d then Some ask_for_amount else None)
      | TextMessage t \<Rightarrow>
          (if st = Some GET_AMOUNT then Some ask_for_description
           else if st = Some GET_DESCRIPTION then Some save_transaction
           else None))"

text \<open>
  One update through the conversation: the stage moves to what the handler returns, and
  stays where it is when the handler raises or no handler takes the update.
\<close>

record session =
  stage_of :: "stage option"
  data_of :: user_data
  sent :: "effect list"
  raised :: "py_error option"

definition handle_update :: "env \<Rightarrow> event \<Rightarrow> session \<Rightarrow> session" where
  "handle_update e ev c =
     (case handler_for (stage_of c) ev of
        None \<Rightarrow> c\<lparr>raised := None\<rparr>
      | Some h \<Rightarrow>
          (case h e (update_of ev) (data_of c) of
             (ud, effs, Inl err) \<Rightarrow>
               c\<lparr>data_of := ud, sent := sent c @ effs, raised := Some err\<rparr>
           | (ud, effs, Inr s) \<Rightarrow>
               \<lparr>stage_of = Some s, data_of = ud, sent = sent c @ effs, raised = None\<rparr>))"

fun run :: "(env \<times> event) list \<Rightarrow> session \<Rightarrow> session" where
  "run [] c = c"
| "run ((e, ev) # rest) c = run rest (handle_update e ev c)"

text \<open>A user the bot has never seen: an empty \<open>user_data\<close> and no conversation.\<close>

definition fresh_data :: user_data where
  "fresh_data =
     \<lparr>last_update = None, balance_start_day = None, balance_end_day = None,
      transactions_today = None, message_id = None, current_transaction = None\<rparr>"

definition fresh :: session where
  "fresh = \<lparr>stage_of = None, data_of = fresh_data, sent = [], raised = None\<rparr>"

section \<open>A concrete environment\<close>

text \<open>
  \<open>float\<close> and the format \<open>:.2f\<close> are builtins of Python, parameters of the model:
  every general theorem below holds for any pair of functions in their place. The two
  functions of this section are not Python's. They are stand-ins for the concrete runs, and
  agree with Python only on the texts and amounts those runs use: whole numbers of at most
  a few digits, with an optional sign. \<open>decimal_literal\<close> reads a plain decimal literal
  (an optional sign, digits, and an optional point with digits, between optional white
  space) as the exact rational it denotes; unlike \<open>float\<close> it rejects exponents, \<open>inf\<close>,
  \<open>nan\<close> and underscores, and it does not round to the nearest binary float (\<open>0.1\<close> is
  one tenth here).
\<close>

definition is_space :: "char \<Rightarrow> bool" where
  "is_space c = (c \<in> set [CHR 0x20, CHR 0x09, CHR 0x0A, CHR 0x0B, CHR 0x0C, CHR 0x0D])"

definition strip :: "string \<Rightarrow> string" where
  "strip s = rev (dropWhile is_space (rev (dropWhile is_space s)))"

fun digits_value :: "string \<Rightarrow> nat \<Rightarrow> nat option" where
  "digits_value [] acc = Some acc"
| "digits_value (c # cs) acc =
     (let n = (of_char c :: nat)
      in if 48 \<le> n \<and> n \<le> 57 then digits_value cs (10 * acc + (n - 48)) else None)"

definition decimal_literal :: "string \<Rightarrow> amount option" where
  "decimal_literal s =
     (let t = strip s;
          negative = (t \<noteq> [] \<and> hd t = CHR ''-'');
          body = (if t \<noteq> [] \<and> (hd t = CHR ''-'' \<or> hd t = CHR ''+'') then tl t else t);
          whole = takeWhile (\<lambda>c. c \<noteq> CHR ''.'') body;
          frac = (case dropWhile (\<lambda>c. c \<noteq> CHR ''.'') body of [] \<Rightarrow> [] | _ # r \<Rightarrow> r)
      in if whole = [] \<and> frac = [] then None
         else (case (digits_value whole 0, digits_value frac 0) of
                 (Some i, Some f) \<Rightarrow>
                   Some ((if negative then - 1 else 1)
                         * (of_nat i + of_nat f / of_nat (10 ^ length frac)))
               | _ \<Rightarrow> None))"

definition digit_char :: "nat \<Rightarrow> char" where
  "digit_char n = ''0123456789'' ! n"

fun digits_of :: "nat \<Rightarrow> string" where
  "digits_of n =
     (if n < 10 then [digit_char n]
      else digits_of (n div 10) @ [digit_char (n mod 10)])"

text \<open>
  \<open>decimal_2f\<close> writes an exact rational with two decimals, rounded half to even, the
  hundredths computed on integers. Python formats the binary float instead, so the two
  differ where the float is not the decimal it was read from (\<open>2.675\<close> is shown as
  \<open>2.67\<close> by Python and as \<open>2.68\<close> here); no theorem below depends on its digits.
\<close>

definition hundredths :: "amount \<Rightarrow> int" where
  "hundredths a =
     (let (p, q) = quotient_of \<bar>a\<bar>;
          n = (100 * p) div q;
          r = 2 * ((100 * p) mod q)
      in if r > q \<or> (r = q \<and> odd n) then n + 1 else n)"

definition decimal_2f :: "amount \<Rightarrow> string" where
  "decimal_2f a =
     (let h = nat (hundredths a);
          cents = h mod 100
      in (if a < 0 then ''-'' else '''')
         @ digits_of (h div 100) @ ''.''
         @ [digit_char (cents div 10), digit_char (cents mod 10)])"

definition env_at :: "string \<Rightarrow> bool \<Rightarrow> bool \<Rightarrow> int \<Rightarrow> env" where
  "env_at day edits deletes new_id =
     \<lparr>today_str = day, date_long = day, now_iso = day @ ''T12:00:00+05:00'',
      edit_ok = edits, delete_ok = deletes, sent_id = new_id,
      mention_html = ''user'', float = decimal_literal, fmt2f = decimal_2f\<rparr>"

section \<open>The words of the specification\<close>

text \<open>The transactions of the day and the opening balance as the ledger stores them.\<close>

definition day_list :: "user_data \<Rightarrow> transaction list" where
  "day_list ud = (case transactions_today ud of None \<Rightarrow> [] | Some l \<Rightarrow> l)"


definition closing_balance :: "user_data \<Rightarrow> amount" where
  "closing_balance ud = (case balance_end_day ud of None \<Rightarrow> 0 | Some b \<Rightarrow> b)"



text \<open>One line of the menu, as the specification describes it.\<close>

definition operation_line :: "env \<Rightarrow> transaction \<Rightarrow> string" where
  "operation_line e t =
     (if type t = ''income'' then mark_income else mark_expense) @ '' ''
     @ fmt2f e (case amount t of None \<Rightarrow> 0 | Some a \<Rightarrow> a) @ '' - ''
     @ (case description t of None \<Rightarrow> no_description | Some d \<Rightarrow> d) @ [CHR 0x0A]"








section \<open>Properties of the ledger\<close>





section \<open>Properties of the menu\<close>

lemma operation_lines_concat:
  "list_all (\<lambda>t. amount t \<noteq> None) ts \<Longrightarrow>
     operation_lines e ts acc = Inr (acc @ concat (map (operation_line e) ts))"
  by (induction ts arbitrary: acc) (auto simp: operation_line_def Let_def)

lemma slice_from_last:
  "0 < k \<Longrightarrow> slice_from (- int k) xs = drop (length xs - k) xs"
  by (auto simp: slice_from_def Let_def max_def nat_diff_distrib')

section \<open>What the handlers keep\<close>










text \<open>
  C2 (idempotence). A second call of \<open>get_user_stats\<close> at a moment of the same calendar day
  leaves the ledger as the first call left it and returns the same statistics (the date shown
  is the one of the second moment); the carry-forward step is not due again and the opening
  balance is not changed a second time.
\<close>

theorem stats_idempotent:
  assumes "today_str e2 = today_str e"
  shows "get_user_stats e2 (fst (get_user_stats e ud))
           = (fst (get_user_stats e ud),
              map_sum id (\<lambda>s. s\<lparr>stats_date := date_long e2\<rparr>) (snd (get_user_stats e ud)))
         \<and> \<not> rollover_due e2 (fst (get_user_stats e ud))
         \<and> balance_start_day (fst (get_user_stats e2 (fst (get_user_stats e ud))))
             = balance_start_day (fst (get_user_stats e ud))"
  using assms
  by (auto simp: get_user_stats_def rollover_due_def rollover_def Let_def
           split: sum.splits option.splits)

theorem stats_idempotent_witness:
  "today_str (env_at ''2024-01-02'' False False 9) = today_str (env_at ''2024-01-02'' True True 1)
   \<and> get_user_stats (env_at ''2024-01-02'' False False 9)
        (fst (get_user_stats (env_at ''2024-01-02'' True True 1)
               (fresh_data\<lparr>last_update := Some ''2024-01-01'', balance_end_day := Some 50\<rparr>)))
      = get_user_stats (env_at ''2024-01-02'' True True 1)
          (fresh_data\<lparr>last_update := Some ''2024-01-01'', balance_end_day := Some 50\<rparr>)"
proof -
  let ?e1 = "env_at ''2024-01-02'' True True 1"
  let ?e2 = "env_at ''2024-01-02'' False False 9"
  let ?ud = "fresh_data\<lparr>last_update := Some ''2024-01-01'', balance_end_day := Some 50\<rparr>"
  let ?s = "\<lparr>stats_date = ''2024-01-02'', balance_start = 50, total_income = 0,
             total_expense = 0, balance_end = 50, transactions = []\<rparr>"
  have h: "today_str ?e2 = today_str ?e1"
    by (simp add: env_at_def)
  have d: "date_long ?e2 = ''2024-01-02''"
    by (simp add: env_at_def)
  have r: "snd (get_user_stats ?e1 ?ud) = Inr ?s"
    by (simp add: get_user_stats_def rollover_due_def rollover_def env_at_def fresh_data_def
                  Let_def)
  from stats_idempotent [OF h, of ?ud]
  have "get_user_stats ?e2 (fst (get_user_stats ?e1 ?ud))
          = (fst (get_user_stats ?e1 ?ud),
             map_sum id (\<lambda>s. s\<lparr>stats_date := date_long ?e2\<rparr>) (snd (get_user_stats ?e1 ?ud)))"
    by (rule conjunct1)
  then have "get_user_stats ?e2 (fst (get_user_stats ?e1 ?ud))
          = (fst (get_user_stats ?e1 ?ud), snd (get_user_stats ?e1 ?ud))"
    unfolding r d by simp
  with h show ?thesis by simp
qed

text \<open>
  C3 (rollover). When \<open>last_update\<close> is absent or is any date other than today's, the call
  sets the opening balance to the stored closing balance (0 when there is none), empties the
  transactions of the day and stores today's date, so that the step is not due again however
  long the gap was; the statistics show that opening balance and no transaction.
\<close>

theorem rollover_on_first_access:
  assumes "last_update ud \<noteq> Some (today_str e)"
  shows "get_user_stats e ud =
           (ud\<lparr>balance_start_day := Some (closing_balance ud),
               transactions_today := Some [],
               last_update := Some (today_str e),
               balance_end_day := Some (closing_balance ud)\<rparr>,
            Inr \<lparr>stats_date = date_long e, balance_start = closing_balance ud,
                 total_income = 0, total_expense = 0,
                 balance_end = closing_balance ud, transactions = []\<rparr>)
         \<and> \<not> rollover_due e (fst (get_user_stats e ud))
         \<and> fst (get_user_stats e (fst (get_user_stats e ud))) = fst (get_user_stats e ud)"
  using assms
  by (simp add: get_user_stats_def rollover_due_def rollover_def closing_balance_def Let_def)

theorem rollover_on_first_access_witness:
  "last_update (fresh_data\<lparr>last_update := Some ''2024-01-01'', balance_end_day := Some 50,
        transactions_today :=
          Some [\<lparr>type = ''income'', amount = Some 50, description = None, date = None\<rparr>]\<rparr>)
     \<noteq> Some (today_str (env_at ''2024-01-02'' True True 1))
   \<and> (\<exists>ud' s. get_user_stats (env_at ''2024-01-02'' True True 1)
         (fresh_data\<lparr>last_update := Some ''2024-01-01'', balance_end_day := Some 50,
            transactions_today :=
              Some [\<lparr>type = ''income'', amount = Some 50, description = None,
                      date = None\<rparr>]\<rparr>) = (ud', Inr s)
         \<and> balance_start s = 50 \<and> transactions s = []
         \<and> balance_start_day ud' = Some 50 \<and> transactions_today ud' = Some []
         \<and> last_update ud' = Some ''2024-01-02'')"
proof -
  let ?ud = "fresh_data\<lparr>last_update := Some ''2024-01-01'', balance_end_day := Some 50,
        transactions_today :=
          Some [\<lparr>type = ''income'', amount = Some 50, description = None, date = None\<rparr>]\<rparr>"
  have h: "last_update ?ud \<noteq> Some (today_str (env_at ''2024-01-02'' True True 1))"
    by (simp add: env_at_def)
  from rollover_on_first_access [OF h] h show ?thesis
    by (simp add: closing_balance_def env_at_def)
qed

section \<open>Properties of the dialogue\<close>

text \<open>
  C5 (parse failure). In \<open>GET_AMOUNT\<close>, a text that \<open>float\<close> rejects leaves \<open>user_data\<close>
  as it was, pending transaction and ledger included, keeps the stage, and the only
  transport call is the reply that asks for the amount again.
\<close>

theorem parse_failure_stays:
  assumes "float e text = None"
  shows "ask_for_description e (update_of (TextMessage text)) ud
           = (ud, [ReplyText txt_not_a_number], Inr GET_AMOUNT)
         \<and> handle_update e (TextMessage text)
             \<lparr>stage_of = Some GET_AMOUNT, data_of = ud, sent = [], raised = None\<rparr>
           = \<lparr>stage_of = Some GET_AMOUNT, data_of = ud,
              sent = [ReplyText txt_not_a_number], raised = None\<rparr>"
  using assms
  by (simp add: ask_for_description_def update_of_def handle_update_def handler_for_def)

theorem parse_failure_stays_witness:
  "float (env_at ''2024-01-02'' True True 3) ''abc'' = None
   \<and> handle_update (env_at ''2024-01-02'' True True 3) (TextMessage ''abc'')
        \<lparr>stage_of = Some GET_AMOUNT,
         data_of = fresh_data\<lparr>current_transaction :=
                     Some \<lparr>type = ''income'', amount = None, description = None,
                           date = None\<rparr>\<rparr>,
         sent = [], raised = None\<rparr>
      = \<lparr>stage_of = Some GET_AMOUNT,
         data_of = fresh_data\<lparr>current_transaction :=
                     Some \<lparr>type = ''income'', amount = None, description = None,
                           date = None\<rparr>\<rparr>,
         sent = [ReplyText txt_not_a_number], raised = None\<rparr>"
proof -
  have h: "float (env_at ''2024-01-02'' True True 3) ''abc'' = None"
    by (simp add: env_at_def decimal_literal_def strip_def is_space_def Let_def)
  from parse_failure_stays [OF h] h show ?thesis by blast
qed

text \<open>
  C6 (missing pending transaction), as the code has it. With no \<open>current_transaction\<close> in
  \<open>user_data\<close>, \<open>save_transaction\<close> raises \<open>KeyError\<close> at line 152, before it has changed
  anything or called the transport: the conversation stays in \<open>GET_DESCRIPTION\<close>, nothing
  is reset and no menu is shown.
\<close>

theorem missing_pending_raises:
  assumes "current_transaction ud = None"
  shows "save_transaction e (update_of (TextMessage text)) ud = (ud, [], Inl KeyError)
         \<and> handle_update e (TextMessage text)
             \<lparr>stage_of = Some GET_DESCRIPTION, data_of = ud, sent = [], raised = None\<rparr>
           = \<lparr>stage_of = Some GET_DESCRIPTION, data_of = ud, sent = [],
              raised = Some KeyError\<rparr>"
  using assms
  by (simp add: save_transaction_def commit_transaction_def update_of_def handle_update_def
                handler_for_def)

theorem missing_pending_raises_witness:
  "current_transaction fresh_data = None
   \<and> save_transaction (env_at ''2024-01-02'' True True 3) (update_of (TextMessage ''salary''))
        fresh_data = (fresh_data, [], Inl KeyError)"
proof -
  have h: "current_transaction fresh_data = None"
    by (simp add: fresh_data_def)
  from missing_pending_raises [OF h] h show ?thesis by blast
qed

text \<open>
  The claim C6 as the specification states it fails: the session is not brought back to the
  main menu, no menu is rendered and the error leaves the handler.
\<close>

theorem missing_pending_counterexample:
  "handle_update (env_at ''2024-01-02'' True True 5) (TextMessage ''salary'')
     \<lparr>stage_of = Some GET_DESCRIPTION,
      data_of = fresh_data\<lparr>last_update := Some ''2024-01-02'', message_id := Some 4\<rparr>,
      sent = [], raised = None\<rparr>
   = \<lparr>stage_of = Some GET_DESCRIPTION,
      data_of = fresh_data\<lparr>last_update := Some ''2024-01-02'', message_id := Some 4\<rparr>,
      sent = [], raised = Some KeyError\<rparr>"
  by (simp add: handle_update_def handler_for_def save_transaction_def commit_transaction_def
                update_of_def fresh_data_def)

text \<open>
  C7 (sign of the amounts), as the code has it. The amount step accepts whatever \<open>float\<close>
  returns and the commit appends that value unchanged: no check of the sign is made at
  either step, so a zero or a negative amount is stored like any other.
\<close>

theorem amount_stored_as_parsed:
  assumes "float e text = Some a" and "current_transaction ud = Some t"
  shows "ask_for_description e (update_of (TextMessage text)) ud
           = (ud\<lparr>current_transaction := Some (t\<lparr>amount := Some a\<rparr>)\<rparr>,
              [ReplyText txt_enter_description], Inr GET_DESCRIPTION)
         \<and> (\<exists>ud1 deleted.
               commit_transaction e2 (update_of (TextMessage d))
                 (ud\<lparr>current_transaction := Some (t\<lparr>amount := Some a\<rparr>)\<rparr>)
                 = Inr (ud1, deleted)
               \<and> day_list ud1
                   = day_list ud
                     @ [t\<lparr>amount := Some a, description := Some d,
                          date := Some (now_iso e2)\<rparr>])"
  using assms
  by (simp add: ask_for_description_def commit_transaction_def update_of_def day_list_def
                Let_def)

theorem amount_stored_as_parsed_witness:
  "float (env_at ''2024-01-02'' True True 3) ''-5'' = Some (- 5)
   \<and> current_transaction
        (fresh_data\<lparr>current_transaction :=
           Some \<lparr>type = ''expense'', amount = None, description = None, date = None\<rparr>\<rparr>)
      = Some \<lparr>type = ''expense'', amount = None, description = None, date = None\<rparr>
   \<and> ask_for_description (env_at ''2024-01-02'' True True 3) (update_of (TextMessage ''-5''))
        (fresh_data\<lparr>current_transaction :=
           Some \<lparr>type = ''expense'', amount = None, description = None, date = None\<rparr>\<rparr>)
      = (fresh_data\<lparr>current_transaction :=
           Some \<lparr>type = ''expense'', amount = Some (- 5), description = None,
                 date = None\<rparr>\<rparr>,
         [ReplyText txt_enter_description], Inr GET_DESCRIPTION)"
proof -
  let ?t = "\<lparr>type = ''expense'', amount = None, description = None, date = None\<rparr>"
  have h: "float (env_at ''2024-01-02'' True True 3) ''-5'' = Some (- 5)"
    by (simp add: env_at_def decimal_literal_def strip_def is_space_def Let_def)
  have c: "current_transaction (fresh_data\<lparr>current_transaction := Some ?t\<rparr>) = Some ?t"
    by simp
  from amount_stored_as_parsed [OF h c] h c show ?thesis by simp
qed

text \<open>
  The claim C7 as the specification states it fails: the dialogue of a new user who enters
  an expense of \<open>-5\<close> ends with that amount in \<open>transactions_today\<close>.
\<close>

theorem positive_amounts_counterexample:
  "map amount
     (day_list (data_of (run [(env_at ''2024-01-02'' True True 1, Command ''start''),
                              (env_at ''2024-01-02'' True True 2, CallbackQuery ADD_EXPENSE),
                              (env_at ''2024-01-02'' True True 3, TextMessage ''-5''),
                              (env_at ''2024-01-02'' True True 4, TextMessage ''refund'')]
                         fresh)))
   = [Some (- 5)]
   \<and> \<not> (0 :: amount) < - 5"
  by (simp add: env_at_def fresh_def fresh_data_def handle_update_def handler_for_def
        update_of_def start_def get_user_stats_def rollover_due_def rollover_def menu_text_def
        truthy_def ask_for_amount_def ask_for_description_def save_transaction_def
        commit_transaction_def MockUpdate_def pattern_matches_def ADD_INCOME_def
        ADD_EXPENSE_def slice_from_def decimal_literal_def strip_def is_space_def day_list_def
        Let_def)

text \<open>
  C10 (commit across midnight). When the description arrives on a day other than the one
  stored in \<open>last_update\<close>, \<open>save_transaction\<close> first appends the transaction, and the
  \<open>get_user_stats\<close> of the menu it then shows performs the carry-forward: the list of the day
  is emptied and both balances are the closing balance stored before the commit, so the
  transaction is in no total and no balance.
\<close>

theorem commit_lost_across_midnight:
  assumes "current_transaction ud = Some t" and "last_update ud \<noteq> Some (today_str e)"
  shows "\<exists>ud1 deleted ud2 shown.
           commit_transaction e (update_of (TextMessage text)) ud = Inr (ud1, deleted)
           \<and> day_list ud1
               = day_list ud @ [t\<lparr>description := Some text, date := Some (now_iso e)\<rparr>]
           \<and> save_transaction e (update_of (TextMessage text)) ud
               = (ud2, deleted @ shown, Inr START_ROUTES)
           \<and> transactions_today ud2 = Some []
           \<and> balance_start_day ud2 = Some (closing_balance ud)
           \<and> balance_end_day ud2 = Some (closing_balance ud)
           \<and> current_transaction ud2 = None"
  using assms
  by (simp add: save_transaction_def commit_transaction_def update_of_def start_def
                get_user_stats_def rollover_due_def rollover_def menu_text_def MockUpdate_def
                truthy_def closing_balance_def day_list_def Let_def)

theorem commit_lost_across_midnight_witness:
  "current_transaction
     (fresh_data\<lparr>last_update := Some ''2024-01-01'', balance_start_day := Some 0,
        balance_end_day := Some 20,
        transactions_today :=
          Some [\<lparr>type = ''income'', amount = Some 20, description = Some ''gift'',
                  date = Some ''2024-01-01T09:00:00+05:00''\<rparr>],
        current_transaction :=
          Some \<lparr>type = ''income'', amount = Some 150, description = None, date = None\<rparr>\<rparr>)
     = Some \<lparr>type = ''income'', amount = Some 150, description = None, date = None\<rparr>
   \<and> last_update
       (fresh_data\<lparr>last_update := Some ''2024-01-01'', balance_start_day := Some 0,
          balance_end_day := Some 20,
          transactions_today :=
            Some [\<lparr>type = ''income'', amount = Some 20, description = Some ''gift'',
                    date = Some ''2024-01-01T09:00:00+05:00''\<rparr>],
          current_transaction :=
            Some \<lparr>type = ''income'', amount = Some 150, description = None, date = None\<rparr>\<rparr>)
     \<noteq> Some (today_str (env_at ''2024-01-02'' True True 7))
   \<and> (\<exists>ud2 effs.
         save_transaction (env_at ''2024-01-02'' True True 7) (update_of (TextMessage ''salary''))
           (fresh_data\<lparr>last_update := Some ''2024-01-01'', balance_start_day := Some 0,
              balance_end_day := Some 20,
              transactions_today :=
                Some [\<lparr>type = ''income'', amount = Some 20, description = Some ''gift'',
                        date = Some ''2024-01-01T09:00:00+05:00''\<rparr>],
              current_transaction :=
                Some \<lparr>type = ''income'', amount = Some 150, description = None,
                      date = None\<rparr>\<rparr>)
           = (ud2, effs, Inr START_ROUTES)
         \<and> transactions_today ud2 = Some []
         \<and> balance_start_day ud2 = Some 20 \<and> balance_end_day ud2 = Some 20)"
proof -
  let ?t = "\<lparr>type = ''income'', amount = Some 150, description = None, date = None\<rparr>"
  let ?ud = "fresh_data\<lparr>last_update := Some ''2024-01-01'', balance_start_day := Some 0,
        balance_end_day := Some 20,
        transactions_today :=
          Some [\<lparr>type = ''income'', amount = Some 20, description = Some ''gift'',
                  date = Some ''2024-01-01T09:00:00+05:00''\<rparr>],
        current_transaction := Some ?t\<rparr>"
  have c: "current_transaction ?ud = Some ?t"
    by simp
  have l: "last_update ?ud \<noteq> Some (today_str (env_at ''2024-01-02'' True True 7))"
    by (simp add: env_at_def)
  have b: "closing_balance ?ud = 20"
    by (simp add: closing_balance_def)
  from commit_lost_across_midnight [OF c l, of "''salary''"] c l show ?thesis
    unfolding b by blast
qed

lemma operation_lines_raises:
  "\<not> list_all (\<lambda>t. amount t \<noteq> None) ts \<Longrightarrow> operation_lines e ts acc = Inl KeyError"
  by (induction ts arbitrary: acc) (auto simp: Let_def split: option.splits)

text \<open>
  C8 (renderer). For every statistics snapshot, the text of the menu is the head followed by
  one line for each of the last five transactions of the day (all of them when there are
  fewer, and the note that there is none when the list is empty), in the order of the list,
  oldest first. Each line starts with the marker of the type of its transaction and ends with
  its description, the default label standing where the transaction has none. The lines read
  \<open>t['amount']\<close>: where one of the transactions shown has no amount, no text is produced
  and \<open>KeyError\<close> is raised.
\<close>

theorem menu_shows_last_five:
  "menu_text e s
     = (if list_all (\<lambda>t. amount t \<noteq> None)
             (drop (length (transactions s) - 5) (transactions s))
        then Inr (menu_head e s
                  @ (if transactions s = [] then txt_no_operations
                     else concat (map (operation_line e)
                                   (drop (length (transactions s) - 5) (transactions s)))))
        else Inl KeyError)
   \<and> length (drop (length (transactions s) - 5) (transactions s))
       = min 5 (length (transactions s))
   \<and> take (length (transactions s) - 5) (transactions s)
       @ drop (length (transactions s) - 5) (transactions s) = transactions s
   \<and> (\<forall>t a. amount t = Some a \<longrightarrow>
         operation_line e t
           = (if type t = ''income'' then mark_income else mark_expense) @ '' ''
             @ fmt2f e a @ '' - ''
             @ (case description t of None \<Rightarrow> no_description | Some d \<Rightarrow> d)
             @ [CHR 0x0A])"
proof -
  let ?shown = "drop (length (transactions s) - 5) (transactions s)"
  have s: "slice_from (- 5) (transactions s) = ?shown"
    using slice_from_last [of 5 "transactions s"] by simp
  have "menu_text e s
          = (if list_all (\<lambda>t. amount t \<noteq> None) ?shown
             then Inr (menu_head e s
                       @ (if transactions s = [] then txt_no_operations
                          else concat (map (operation_line e) ?shown)))
             else Inl KeyError)"
  proof (cases "list_all (\<lambda>t. amount t \<noteq> None) ?shown")
    case True
    then show ?thesis
      by (simp add: menu_text_def s operation_lines_concat)
  next
    case False
    then have "transactions s \<noteq> []"
      by auto
    with False show ?thesis
      by (simp add: menu_text_def s operation_lines_raises)
  qed
  then show ?thesis
    by (auto simp: operation_line_def)
qed

theorem menu_shows_last_five_witness:
  "list_all (\<lambda>t. amount t \<noteq> None)
     (map (\<lambda>n. \<lparr>type = (if n = 2 then ''income'' else ''expense''), amount = Some (of_nat n),
                description = (if n = 3 then None else Some ''food''), date = None\<rparr>)
        [2, 3, 4, 5, 6 :: nat])
   \<and> (\<exists>s. transactions s
            = map (\<lambda>n. \<lparr>type = (if n = 2 then ''income'' else ''expense''),
                        amount = (if n = 1 then None else Some (of_nat n)),
                        description = (if n = 3 then None else Some ''food''), date = None\<rparr>)
                [1, 2, 3, 4, 5, 6 :: nat]
          \<and> menu_text (env_at ''2024-01-02'' True True 1) s
            = Inr (menu_head (env_at ''2024-01-02'' True True 1) s
                   @ mark_income @ '' '' @ decimal_2f 2 @ '' - food'' @ [CHR 0x0A]
                   @ mark_expense @ '' '' @ decimal_2f 3 @ '' - '' @ no_description @ [CHR 0x0A]
                   @ mark_expense @ '' '' @ decimal_2f 4 @ '' - food'' @ [CHR 0x0A]
                   @ mark_expense @ '' '' @ decimal_2f 5 @ '' - food'' @ [CHR 0x0A]
                   @ mark_expense @ '' '' @ decimal_2f 6 @ '' - food'' @ [CHR 0x0A]))"
proof -
  let ?txs = "map (\<lambda>n. \<lparr>type = (if n = 2 then ''income'' else ''expense''),
                        amount = (if n = 1 then None else Some (of_nat n)),
                        description = (if n = 3 then None else Some ''food''), date = None\<rparr>)
                [1, 2, 3, 4, 5, 6 :: nat]"
  let ?s = "\<lparr>stats_date = ''2 January 2024'', balance_start = 0, total_income = 2,
             total_expense = 18, balance_end = - 16, transactions = ?txs\<rparr>"
  let ?e = "env_at ''2024-01-02'' True True 1"
  have h: "list_all (\<lambda>t. amount t \<noteq> None)
             (drop (length (transactions ?s) - 5) (transactions ?s))"
    by simp
  from menu_shows_last_five [of ?e ?s]
  have "menu_text ?e ?s
          = (if list_all (\<lambda>t. amount t \<noteq> None)
                  (drop (length (transactions ?s) - 5) (transactions ?s))
             then Inr (menu_head ?e ?s
                       @ (if transactions ?s = [] then txt_no_operations
                          else concat (map (operation_line ?e)
                                 (drop (length (transactions ?s) - 5) (transactions ?s)))))
             else Inl KeyError)"
    by (rule conjunct1)
  then have "menu_text ?e ?s
          = Inr (menu_head ?e ?s
                   @ mark_income @ '' '' @ decimal_2f 2 @ '' - food'' @ [CHR 0x0A]
                   @ mark_expense @ '' '' @ decimal_2f 3 @ '' - '' @ no_description @ [CHR 0x0A]
                   @ mark_expense @ '' '' @ decimal_2f 4 @ '' - food'' @ [CHR 0x0A]
                   @ mark_expense @ '' '' @ decimal_2f 5 @ '' - food'' @ [CHR 0x0A]
                   @ mark_expense @ '' '' @ decimal_2f 6 @ '' - food'' @ [CHR 0x0A])"
    unfolding if_P [OF h] by (simp add: operation_line_def env_at_def)
  moreover have "transactions ?s = ?txs"
    by simp
  ultimately show ?thesis
    by (intro conjI exI [of _ ?s]) simp_all
qed

section \<open>Properties of the live message\<close>




section \<open>The commit\<close>



end
